theory Spec2Isabelle
  imports Complex_Main "HOL-Library.List_Lexorder" "HOL-Library.Char_ord"
begin

section \<open>Data model\<close>

text \<open>
  A date is modelled by its ISO-8601 text (\<open>YYYY-MM-DD\<close>): this is what
  \<open>str(ts.date())\<close> yields, what the CSV cache stores, and what the callers
  pass as \<open>end\<close>. Strings are ordered lexicographically by character code, as
  Python compares them in \<open>cache_end > end\<close>; on ISO texts this is the
  chronological order that the label slices \<open>.ix[:end]\<close> and
  \<open>.ix[ref_end:]\<close> use.
\<close>

type_synonym date = string

text \<open>
  A cell carries its own numeric representation: an \<open>int64\<close> value, a
  \<open>float64\<close> value, or the missing value. Floating-point values are only
  copied by this program, never computed with, so their carrier is \<open>real\<close>.
\<close>

datatype cell = NaN | IntV int | FloatV real

datatype error = KeyError string | IndexError | ValueError | RemoteError string

text \<open>
  A data frame: the column labels in order, and the rows in index order, each row
  being its index label with one cell per column.
\<close>

record frame =
  columns :: "string list"
  rows :: "(date \<times> cell list) list"

definition index :: "frame \<Rightarrow> date list" where
  "index f = map fst (rows f)"

text \<open>A frame is rectangular when every row has one cell per column.\<close>

definition rectangular :: "frame \<Rightarrow> bool" where
  "rectangular f = list_all (\<lambda>r. length (snd r) = length (columns f)) (rows f)"

fun pos :: "'a \<Rightarrow> 'a list \<Rightarrow> nat" where
  "pos x [] = 0"
| "pos x (y # ys) = (if x = y then 0 else Suc (pos x ys))"

definition cell_at :: "cell list \<Rightarrow> nat \<Rightarrow> cell" where
  "cell_at cs i = (if i < length cs then cs ! i else NaN)"

text \<open>The cell of a frame at an index label and a column label; missing when either is absent.\<close>

definition value_at :: "frame \<Rightarrow> date \<Rightarrow> string \<Rightarrow> cell" where
  "value_at f d c =
     (case map_of (rows f) d of
        None \<Rightarrow> NaN
      | Some cs \<Rightarrow> if c \<in> set (columns f) then cell_at cs (pos c (columns f)) else NaN)"

subsection \<open>The data-frame operations the program uses\<close>

text \<open>\<open>df[col]\<close>: the column as a series, or KeyError.\<close>

definition getitem :: "frame \<Rightarrow> string \<Rightarrow> error + cell list" where
  "getitem f c =
     (if c \<in> set (columns f)
      then Inr (map (\<lambda>r. cell_at (snd r) (pos c (columns f))) (rows f))
      else Inl (KeyError c))"

text \<open>\<open>series.astype(np.float64)\<close>: a new series; the operand is left as it is.\<close>

fun to_float64 :: "cell \<Rightarrow> cell" where
  "to_float64 NaN = NaN"
| "to_float64 (IntV i) = FloatV (of_int i)"
| "to_float64 (FloatV x) = FloatV x"

definition astype_float64 :: "cell list \<Rightarrow> cell list" where
  "astype_float64 s = map to_float64 s"

definition is_float64 :: "cell \<Rightarrow> bool" where
  "is_float64 v = (case v of IntV i \<Rightarrow> False | _ \<Rightarrow> True)"

text \<open>\<open>df[col] = series\<close> for a column label that the frame does not have yet.\<close>

definition setitem_new :: "frame \<Rightarrow> string \<Rightarrow> cell list \<Rightarrow> frame" where
  "setitem_new f c s =
     \<lparr>columns = columns f @ [c],
      rows = map (\<lambda>(r, v). (fst r, snd r @ [v])) (zip (rows f) s)\<rparr>"

text \<open>\<open>df[[c1, ..., cn]]\<close>: the listed columns in the listed order, or KeyError.\<close>

definition select_columns :: "frame \<Rightarrow> string list \<Rightarrow> error + frame" where
  "select_columns f cs =
     (case filter (\<lambda>c. c \<notin> set (columns f)) cs of
        c # _ \<Rightarrow> Inl (KeyError c)
      | [] \<Rightarrow> Inr \<lparr>columns = cs,
                  rows = map (\<lambda>r. (fst r, map (\<lambda>c. cell_at (snd r) (pos c (columns f))) cs))
                             (rows f)\<rparr>)"

text \<open>
  \<open>df.ix[:e]\<close>, \<open>df.ix[s:]\<close> and \<open>df.ix[s:e]\<close>: label slices, both
  bounds inclusive; they keep the rows whose label is in the range, which is what the
  slice of a sorted index is.
\<close>

definition ix_to :: "date \<Rightarrow> frame \<Rightarrow> frame" where
  "ix_to e f = f\<lparr>rows := filter (\<lambda>r. fst r \<le> e) (rows f)\<rparr>"

definition ix_from :: "date \<Rightarrow> frame \<Rightarrow> frame" where
  "ix_from s f = f\<lparr>rows := filter (\<lambda>r. s \<le> fst r) (rows f)\<rparr>"

definition ix_range :: "date \<Rightarrow> date \<Rightarrow> frame \<Rightarrow> frame" where
  "ix_range s e f = f\<lparr>rows := filter (\<lambda>r. s \<le> fst r \<and> fst r \<le> e) (rows f)\<rparr>"

text \<open>\<open>df.index[-1]\<close>: IndexError on a frame without rows.\<close>

definition index_last :: "frame \<Rightarrow> error + date" where
  "index_last f = (if rows f = [] then Inl IndexError else Inr (fst (last (rows f))))"

text \<open>
  \<open>a.combine_first(b)\<close>: the result is indexed by the sorted union of both
  indexes and has the union of both column sets; each cell is the cell of \<open>a\<close>
  unless that is missing, and then the cell of \<open>b\<close>. A duplicated index label
  cannot be reindexed and raises ValueError. Cells are copied as they are: the
  promotion of a whole column to \<open>float64\<close> that reindexing can cause is not
  part of this model.
\<close>

definition combiner :: "cell \<Rightarrow> cell \<Rightarrow> cell" where
  "combiner x y = (if x = NaN then y else x)"

definition union_columns :: "string list \<Rightarrow> string list \<Rightarrow> string list" where
  "union_columns a b = (if a = b then a else sort (remdups (a @ b)))"

definition union_index :: "date list \<Rightarrow> date list \<Rightarrow> date list" where
  "union_index a b = sort (remdups (a @ b))"

definition combine_first :: "frame \<Rightarrow> frame \<Rightarrow> error + frame" where
  "combine_first a b =
     (if \<not> distinct (index a) \<or> \<not> distinct (index b) then Inl ValueError
      else Inr \<lparr>columns = union_columns (columns a) (columns b),
                rows = map (\<lambda>d. (d, map (\<lambda>c. combiner (value_at a d c) (value_at b d c))
                                        (union_columns (columns a) (columns b))))
                           (union_index (index a) (index b))\<rparr>)"

text \<open>
  \<open>df.ix[d, c] = v\<close>: every row labelled \<open>d\<close> gets \<open>v\<close> in column \<open>c\<close>; a
  column label that the frame does not have is added first, filled with missing values.
\<close>

definition ix_set :: "date \<Rightarrow> string \<Rightarrow> cell \<Rightarrow> frame \<Rightarrow> frame" where
  "ix_set d c v f =
     (let g = (if c \<in> set (columns f) then f
               else setitem_new f c (replicate (length (rows f)) NaN))
      in g\<lparr>rows := map (\<lambda>r. if fst r = d then (fst r, (snd r)[pos c (columns g) := v]) else r)
                        (rows g)\<rparr>)"

section \<open>The program: \<open>src/web/api.py\<close>\<close>

subsection \<open>Collaborators, configuration and the world\<close>

text \<open>
  The vendor call \<open>web.DataReader\<close>, the live-quote call \<open>fetch_live_quote\<close>
  and \<open>_today\<close> are outside the module; they are parameters. A vendor failure is
  an error value. A live quote is a time stamp (date and time of day) with a price.
\<close>

record env =
  web_DataReader :: "string \<Rightarrow> string \<Rightarrow> string \<Rightarrow> string \<Rightarrow> error + frame"
  fetch_live_quote :: "string \<Rightarrow> ((date \<times> string) \<times> real) option"
  today :: date

record config =
  enable_cache :: bool
  use_reference :: bool

text \<open>
  The world: the files of the cache directory, by file name, and the trace of the
  requests made to the vendor and to the cache store, oldest first. Writing a frame
  with \<open>to_csv\<close> and reading it back with \<open>read_csv\<close> is the identity on frames.
\<close>

datatype event =
  WebCall string string string string
| CacheRead string
| CacheWrite string

record world =
  files :: "string \<rightharpoonup> frame"
  trace :: "event list"

fun is_web_call :: "event \<Rightarrow> bool" where
  "is_web_call (WebCall t s a b) = True"
| "is_web_call _ = False"

definition web_calls :: "world \<Rightarrow> event list" where
  "web_calls w = filter is_web_call (trace w)"

subsection \<open>Constants of the class\<close>

definition OpenCol :: string where "OpenCol = ''Open''"
definition CloseCol :: string where "CloseCol = ''Close''"
definition AdjCloseCol :: string where "AdjCloseCol = ''Adj Close''"
definition HighCol :: string where "HighCol = ''High''"
definition LowCol :: string where "LowCol = ''Low''"
definition VolumeCol :: string where "VolumeCol = ''Volume''"

definition origin :: date where "origin = ''1926-01-01''"

definition six_columns :: "string list" where
  "six_columns = [OpenCol, HighCol, LowCol, CloseCol, AdjCloseCol, VolumeCol]"

subsection \<open>The functions\<close>

definition market_data_filename :: "string \<Rightarrow> string \<Rightarrow> string" where
  "market_data_filename source ticker =
     (if source = ''reference'' then ticker @ ''.csv''
      else ticker @ ''.'' @ source @ ''.csv'')"

definition read_cache :: "string \<Rightarrow> string \<Rightarrow> world \<Rightarrow> frame option \<times> world" where
  "read_cache ticker source w =
     (let filepath = market_data_filename source ticker
      in (files w filepath, w\<lparr>trace := trace w @ [CacheRead filepath]\<rparr>))"

text \<open>
  Lines 71 to 81 of \<open>_fetch_web_data\<close>, on the frame the vendor returned. Each
  \<open>astype\<close> is an expression statement: the column is looked up (KeyError when
  absent), the converted series is computed, and nothing is done with it.
\<close>

definition normalize_web_df :: "frame \<Rightarrow> error + frame" where
  "normalize_web_df web_df =
     (case getitem web_df OpenCol of Inl e \<Rightarrow> Inl e | Inr open_s \<Rightarrow>
      let open_f = astype_float64 open_s in
      case getitem web_df CloseCol of Inl e \<Rightarrow> Inl e | Inr close_s \<Rightarrow>
      let close_f = astype_float64 close_s in
      case getitem web_df HighCol of Inl e \<Rightarrow> Inl e | Inr high_s \<Rightarrow>
      let high_f = astype_float64 high_s in
      case getitem web_df LowCol of Inl e \<Rightarrow> Inl e | Inr low_s \<Rightarrow>
      let low_f = astype_float64 low_s in
      case getitem web_df VolumeCol of Inl e \<Rightarrow> Inl e | Inr volume_s \<Rightarrow>
      let volume_f = astype_float64 volume_s in
      (case (if AdjCloseCol \<in> set (columns web_df)
             then (case getitem web_df AdjCloseCol of
                     Inl e \<Rightarrow> Inl e
                   | Inr adj_s \<Rightarrow> (let adj_f = astype_float64 adj_s in Inr web_df))
             else (case getitem web_df CloseCol of
                     Inl e \<Rightarrow> Inl e
                   | Inr s \<Rightarrow> Inr (setitem_new web_df AdjCloseCol s))) of
         Inl e \<Rightarrow> Inl e
       | Inr web_df' \<Rightarrow>
           select_columns web_df'
             [OpenCol, HighCol, LowCol, CloseCol, AdjCloseCol, VolumeCol]))"

definition fetch_web_data ::
  "env \<Rightarrow> string \<Rightarrow> string \<Rightarrow> string \<Rightarrow> string \<Rightarrow> world \<Rightarrow> (error + frame) \<times> world" where
  "fetch_web_data E ticker source start end w =
     (let w' = w\<lparr>trace := trace w @ [WebCall ticker source start end]\<rparr>
      in case web_DataReader E ticker source start end of
           Inl e \<Rightarrow> (Inl e, w')
         | Inr web_df \<Rightarrow> (normalize_web_df web_df, w'))"

definition read_raw_data ::
  "env \<Rightarrow> config \<Rightarrow> string \<Rightarrow> string \<Rightarrow> string \<Rightarrow> string \<Rightarrow> world
     \<Rightarrow> (error + frame) \<times> world" where
  "read_raw_data E cfg ticker source start end w =
     (if \<not> enable_cache cfg then fetch_web_data E ticker source start end w
      else
        case read_cache ticker source w of
          (None, w1) \<Rightarrow> fetch_web_data E ticker source start end w1
        | (Some cache_df, w1) \<Rightarrow>
            (case index_last cache_df of
               Inl e \<Rightarrow> (Inl e, w1)
             | Inr cache_end \<Rightarrow>
                 if cache_end > end then (Inr (ix_to end cache_df), w1)
                 else
                   (case fetch_web_data E ticker source cache_end end w1 of
                      (Inl e, w2) \<Rightarrow> (Inl e, w2)
                    | (Inr web_df, w2) \<Rightarrow> (combine_first web_df cache_df, w2))))"

definition save_raw_data :: "string \<Rightarrow> string \<Rightarrow> frame \<Rightarrow> world \<Rightarrow> world" where
  "save_raw_data ticker source df w =
     (let filename = market_data_filename source ticker
      in w\<lparr>files := (files w)(filename \<mapsto> df),
           trace := trace w @ [CacheWrite filename]\<rparr>)"

definition combine_ref_and_raw_data :: "frame option \<Rightarrow> frame \<Rightarrow> error + frame" where
  "combine_ref_and_raw_data ref_df raw_df =
     (case ref_df of
        None \<Rightarrow> Inr raw_df
      | Some ref \<Rightarrow>
          (case index_last ref of
             Inl e \<Rightarrow> Inl e
           | Inr ref_end \<Rightarrow> combine_first ref (ix_from ref_end raw_df)))"

definition update_with_live_quote :: "env \<Rightarrow> string \<Rightarrow> frame \<Rightarrow> error + frame" where
  "update_with_live_quote E ticker df =
     (case fetch_live_quote E ticker of
        None \<Rightarrow> Inr df
      | Some quote \<Rightarrow>
          let quote_date = fst (fst quote); quote_value = snd quote in
          (case index_last df of
             Inl e \<Rightarrow> Inl e
           | Inr last_date \<Rightarrow>
               if last_date = quote_date
               then Inr (ix_set quote_date AdjCloseCol (FloatV quote_value) df)
               else Inr df))"

text \<open>\<open>end or today\<close>: \<open>None\<close> and the empty string both give today.\<close>

definition end_or_today :: "string option \<Rightarrow> string \<Rightarrow> string" where
  "end_or_today end today' = (case end of None \<Rightarrow> today' | Some e \<Rightarrow> if e = [] then today' else e)"

definition read ::
  "env \<Rightarrow> config \<Rightarrow> string \<Rightarrow> string \<Rightarrow> string option \<Rightarrow> world \<Rightarrow> (error + frame) \<times> world" where
  "read E cfg ticker source end0 w =
     (let end = end_or_today end0 (today E) in
      case read_raw_data E cfg ticker source origin end w of
        (Inl e, w1) \<Rightarrow> (Inl e, w1)
      | (Inr raw_df, w1) \<Rightarrow>
          let w2 = save_raw_data ticker source raw_df w1 in
          (case (if use_reference cfg
                 then (case read_cache ticker ''reference'' w2 of
                         (ref_df, w3) \<Rightarrow> (combine_ref_and_raw_data ref_df raw_df, w3))
                 else (Inr raw_df, w2)) of
             (Inl e, w3) \<Rightarrow> (Inl e, w3)
           | (Inr df, w3) \<Rightarrow>
               (case (if end = today E then update_with_live_quote E ticker df else Inr df) of
                  Inl e \<Rightarrow> (Inl e, w3)
                | Inr df' \<Rightarrow> (Inr df', save_raw_data ticker ''reference'' df' w3))))"

section \<open>Intermediate values of read\<close>

text \<open>
  Two values inside \<open>read\<close>, named so that they can be spoken of: the working
  table \<open>df\<close> of lines 161 to 165 (the raw series, or its combination with the
  reference entry read after the raw series was saved), and the world in which the
  live overlay and the final save take place.
\<close>

definition working_table :: "config \<Rightarrow> string \<Rightarrow> string \<Rightarrow> frame \<Rightarrow> world \<Rightarrow> error + frame" where
  "working_table cfg ticker source raw_df w1 =
     (if use_reference cfg
      then combine_ref_and_raw_data
             (files (save_raw_data ticker source raw_df w1) (market_data_filename ''reference'' ticker))
             raw_df
      else Inr raw_df)"

definition world_before_final_save :: "config \<Rightarrow> string \<Rightarrow> string \<Rightarrow> frame \<Rightarrow> world \<Rightarrow> world" where
  "world_before_final_save cfg ticker source raw_df w1 =
     (let w2 = save_raw_data ticker source raw_df w1
      in if use_reference cfg
         then w2\<lparr>trace := trace w2 @ [CacheRead (market_data_filename ''reference'' ticker)]\<rparr>
         else w2)"


section \<open>Sample data\<close>

text \<open>
  The vendor of the test suite: a fixed series, sliced to the requested range
  (\<open>web_reader\<close> of \<open>tests/test_api.py\<close>). The sample series has no
  adjusted close, and its volumes are integers. The live quote is dated 2017-11-02,
  which is also today.
\<close>

definition mock_web_reader ::
  "frame \<Rightarrow> string \<Rightarrow> string \<Rightarrow> string \<Rightarrow> string \<Rightarrow> error + frame" where
  "mock_web_reader full ticker source start end = Inr (ix_range start end full)"

definition sample_series :: frame where
  "sample_series =
     \<lparr>columns = [''Open'', ''High'', ''Low'', ''Close'', ''Volume''],
      rows = [(''2017-08-31'', [FloatV 10, FloatV 12, FloatV 9, FloatV 11, IntV 100]),
              (''2017-09-01'', [FloatV 11, FloatV 13, FloatV 10, FloatV 12, IntV 200]),
              (''2017-09-05'', [FloatV 12, FloatV 14, FloatV 11, FloatV 13, IntV 300]),
              (''2017-11-02'', [FloatV 13, FloatV 15, FloatV 12, FloatV 14, IntV 400])]\<rparr>"

definition sample_env :: env where
  "sample_env =
     \<lparr>web_DataReader = mock_web_reader sample_series,
      fetch_live_quote = (\<lambda>ticker. Some ((''2017-11-02'', ''20:00''), 1031)),
      today = ''2017-11-02''\<rparr>"

definition sample_env_no_quote :: env where
  "sample_env_no_quote = sample_env\<lparr>fetch_live_quote := (\<lambda>ticker. None)\<rparr>"

text \<open>The four combinations of the two options.\<close>

definition raw_only :: config where
  "raw_only = \<lparr>enable_cache = True, use_reference = False\<rparr>"

definition with_reference :: config where
  "with_reference = \<lparr>enable_cache = True, use_reference = True\<rparr>"

definition no_cache :: config where
  "no_cache = \<lparr>enable_cache = False, use_reference = False\<rparr>"

definition no_cache_with_reference :: config where
  "no_cache_with_reference = \<lparr>enable_cache = False, use_reference = True\<rparr>"

text \<open>
  The normalized sample series, whole and up to 2017-09-01 and 2017-09-05, and a
  curated reference table that starts later and has another close on 2017-09-05.
\<close>

definition sample_full :: frame where
  "sample_full =
     \<lparr>columns = [''Open'', ''High'', ''Low'', ''Close'', ''Adj Close'', ''Volume''],
      rows = [(''2017-08-31'', [FloatV 10, FloatV 12, FloatV 9, FloatV 11, FloatV 11, IntV 100]),
              (''2017-09-01'', [FloatV 11, FloatV 13, FloatV 10, FloatV 12, FloatV 12, IntV 200]),
              (''2017-09-05'', [FloatV 12, FloatV 14, FloatV 11, FloatV 13, FloatV 13, IntV 300]),
              (''2017-11-02'', [FloatV 13, FloatV 15, FloatV 12, FloatV 14, FloatV 14, IntV 400])]\<rparr>"

definition sample_cache :: frame where
  "sample_cache =
     \<lparr>columns = [''Open'', ''High'', ''Low'', ''Close'', ''Adj Close'', ''Volume''],
      rows = [(''2017-08-31'', [FloatV 10, FloatV 12, FloatV 9, FloatV 11, FloatV 11, IntV 100]),
              (''2017-09-01'', [FloatV 11, FloatV 13, FloatV 10, FloatV 12, FloatV 12, IntV 200])]\<rparr>"

definition sample_merged :: frame where
  "sample_merged =
     \<lparr>columns = [''Open'', ''High'', ''Low'', ''Close'', ''Adj Close'', ''Volume''],
      rows = [(''2017-08-31'', [FloatV 10, FloatV 12, FloatV 9, FloatV 11, FloatV 11, IntV 100]),
              (''2017-09-01'', [FloatV 11, FloatV 13, FloatV 10, FloatV 12, FloatV 12, IntV 200]),
              (''2017-09-05'', [FloatV 12, FloatV 14, FloatV 11, FloatV 13, FloatV 13, IntV 300])]\<rparr>"

definition sample_reference :: frame where
  "sample_reference =
     \<lparr>columns = [''Open'', ''High'', ''Low'', ''Close'', ''Adj Close'', ''Volume''],
      rows = [(''2017-09-01'', [FloatV 11, FloatV 13, FloatV 10, FloatV 12, FloatV 12, IntV 200]),
              (''2017-09-05'', [FloatV 12, FloatV 14, FloatV 11, FloatV 99, FloatV 99, IntV 300])]\<rparr>"

text \<open>
  Three worlds: the empty store, the store as a first read up to 2017-09-01 leaves
  it, and a store with that cache and the curated reference.
\<close>

definition empty_world :: world where
  "empty_world = \<lparr>files = Map.empty, trace = []\<rparr>"

definition world_after_first_read :: world where
  "world_after_first_read =
     \<lparr>files = [''GOOG.yahoo.csv'' \<mapsto> sample_cache, ''GOOG.csv'' \<mapsto> sample_cache],
      trace = [CacheRead ''GOOG.yahoo.csv'',
               WebCall ''GOOG'' ''yahoo'' ''1926-01-01'' ''2017-09-01'',
               CacheWrite ''GOOG.yahoo.csv'', CacheWrite ''GOOG.csv'']\<rparr>"

definition world_with_reference :: world where
  "world_with_reference =
     \<lparr>files = [''GOOG.yahoo.csv'' \<mapsto> sample_cache, ''GOOG.csv'' \<mapsto> sample_reference],
      trace = []\<rparr>"

section \<open>Lemmas\<close>

subsection \<open>Unfolding sets\<close>

text \<open>The definitions to unfold when the program is run on sample data.\<close>

lemmas col_defs = OpenCol_def CloseCol_def AdjCloseCol_def HighCol_def LowCol_def VolumeCol_def

lemmas frame_ops =
  getitem_def select_columns_def setitem_new_def cell_at_def ix_to_def ix_from_def ix_range_def
  index_last_def combine_first_def combiner_def union_columns_def union_index_def value_at_def
  index_def ix_set_def astype_float64_def

lemmas program_defs =
  read_def read_raw_data_def read_cache_def fetch_web_data_def save_raw_data_def
  combine_ref_and_raw_data_def update_with_live_quote_def end_or_today_def
  market_data_filename_def normalize_web_df_def col_defs origin_def Let_def

lemmas sample_defs =
  sample_env_def mock_web_reader_def sample_series_def empty_world_def raw_only_def
  no_cache_def with_reference_def no_cache_with_reference_def
  sample_env_no_quote_def

subsection \<open>Positions and cells\<close>

lemma pos_less: "x \<in> set xs \<Longrightarrow> pos x xs < length xs"
  by (induction xs) auto

lemma nth_pos: "x \<in> set xs \<Longrightarrow> xs ! pos x xs = x"
  by (induction xs) auto

lemma pos_append_in: "x \<in> set xs \<Longrightarrow> pos x (xs @ ys) = pos x xs"
  by (induction xs) auto

lemma pos_append_notin: "x \<notin> set xs \<Longrightarrow> pos x (xs @ ys) = length xs + pos x ys"
  by (induction xs) auto

lemma cell_at_append_left: "i < length cs \<Longrightarrow> cell_at (cs @ ds) i = cell_at cs i"
  by (simp add: cell_at_def nth_append)

lemma cell_at_append_last: "cell_at (cs @ [v]) (length cs) = v"
  by (simp add: cell_at_def)

lemma cell_at_map_pos: "c \<in> set cs \<Longrightarrow> cell_at (map F cs) (pos c cs) = F c"
  by (simp add: cell_at_def pos_less nth_pos)

subsection \<open>Column selection and normalization\<close>

lemma getitem_selected:
  "c \<in> set cs \<Longrightarrow>
   getitem \<lparr>columns = cs, rows = map (\<lambda>r. (fst r, map (F r) cs)) rs\<rparr> c
     = Inr (map (\<lambda>r. F r c) rs)"
  by (simp add: getitem_def comp_def cell_at_map_pos)

lemma six_columns_mem:
  "OpenCol \<in> set six_columns" "HighCol \<in> set six_columns" "LowCol \<in> set six_columns"
  "CloseCol \<in> set six_columns" "AdjCloseCol \<in> set six_columns" "VolumeCol \<in> set six_columns"
  by (simp_all add: six_columns_def)

lemma select_columns_Inr:
  "set cs \<subseteq> set (columns f) \<Longrightarrow>
   select_columns f cs =
     Inr \<lparr>columns = cs,
          rows = map (\<lambda>r. (fst r, map (\<lambda>c. cell_at (snd r) (pos c (columns f))) cs)) (rows f)\<rparr>"
proof -
  assume "set cs \<subseteq> set (columns f)"
  then have "filter (\<lambda>c. c \<notin> set (columns f)) cs = []"
    by (auto simp: filter_empty_conv)
  then show ?thesis by (simp add: select_columns_def)
qed

lemma select_columns_columns: "select_columns f cs = Inr g \<Longrightarrow> columns g = cs"
  by (auto simp: select_columns_def split: list.splits)

lemma normalize_columns: "normalize_web_df f = Inr g \<Longrightarrow> columns g = six_columns"
  by (auto simp: normalize_web_df_def six_columns_def Let_def
      split: sum.splits if_splits dest: select_columns_columns)

lemma zip_map_self: "zip xs (map f xs) = map (\<lambda>x. (x, f x)) xs"
  by (induction xs) auto

lemma normalize_without_adj:
  assumes "AdjCloseCol \<notin> set (columns f)"
    and "set [OpenCol, CloseCol, HighCol, LowCol, VolumeCol] \<subseteq> set (columns f)"
  shows "normalize_web_df f =
     Inr \<lparr>columns = six_columns,
          rows = map (\<lambda>r. (fst r, map (\<lambda>c. cell_at (snd r @ [cell_at (snd r) (pos CloseCol (columns f))])
                                               (pos c (columns f @ [AdjCloseCol]))) six_columns))
                     (rows f)\<rparr>"
proof -
  let ?g = "setitem_new f AdjCloseCol (map (\<lambda>r. cell_at (snd r) (pos CloseCol (columns f))) (rows f))"
  have sub: "set six_columns \<subseteq> set (columns ?g)"
    using assms by (auto simp: six_columns_def setitem_new_def)
  have "normalize_web_df f = select_columns ?g six_columns"
    using assms by (simp add: normalize_web_df_def getitem_def Let_def six_columns_def)
  also have "\<dots> = Inr \<lparr>columns = six_columns,
          rows = map (\<lambda>r. (fst r, map (\<lambda>c. cell_at (snd r) (pos c (columns ?g))) six_columns)) (rows ?g)\<rparr>"
    by (rule select_columns_Inr [OF sub])
  finally show ?thesis
    by (simp add: setitem_new_def zip_map_self comp_def)
qed

subsection \<open>The steps of read\<close>

lemma read_cache_eq:
  "read_cache ticker source w =
     (files w (market_data_filename source ticker),
      w\<lparr>trace := trace w @ [CacheRead (market_data_filename source ticker)]\<rparr>)"
  by (simp add: read_cache_def Let_def)

lemma snd_fetch_web_data:
  "snd (fetch_web_data E ticker source start end w)
     = w\<lparr>trace := trace w @ [WebCall ticker source start end]\<rparr>"
  by (simp add: fetch_web_data_def Let_def split: sum.splits)

lemma save_raw_data_eq:
  "save_raw_data ticker source df w =
     w\<lparr>files := (files w)(market_data_filename source ticker \<mapsto> df),
       trace := trace w @ [CacheWrite (market_data_filename source ticker)]\<rparr>"
  by (simp add: save_raw_data_def Let_def)

text \<open>The steps of read after the raw series: they make no request to the vendor.\<close>

lemma read_web_calls:
  "web_calls (snd (read E cfg ticker source end0 w))
     = web_calls (snd (read_raw_data E cfg ticker source origin (end_or_today end0 (today E)) w))"
proof (cases "read_raw_data E cfg ticker source origin (end_or_today end0 (today E)) w")
  case (Pair r w1)
  show ?thesis
  proof (cases r)
    case (Inl e)
    with Pair show ?thesis by (simp add: read_def Let_def)
  next
    case (Inr raw_df)
    with Pair show ?thesis
      by (simp add: read_def Let_def read_cache_eq save_raw_data_eq web_calls_def
          split: sum.splits prod.splits)
  qed
qed

lemma read_no_reference:
  assumes "read_raw_data E cfg ticker source origin (end_or_today end0 (today E)) w = (Inr raw_df, w1)"
    and "\<not> use_reference cfg" and "end_or_today end0 (today E) \<noteq> today E"
  shows "read E cfg ticker source end0 w
     = (Inr raw_df, save_raw_data ticker ''reference'' raw_df (save_raw_data ticker source raw_df w1))"
  using assms by (simp add: read_def Let_def)

subsection \<open>File names and indexes\<close>

lemma filename_reference_neq:
  "source \<noteq> ''reference'' \<Longrightarrow>
   market_data_filename source ticker \<noteq> market_data_filename ''reference'' ticker"
  by (simp add: market_data_filename_def)

lemma sorted_le_last: "sorted xs \<Longrightarrow> x \<in> set xs \<Longrightarrow> x \<le> last xs"
  by (induction xs) auto

lemma combine_first_index:
  "combine_first a b = Inr df \<Longrightarrow> index df = union_index (index a) (index b)"
  by (auto simp: combine_first_def index_def comp_def split: if_splits)

lemma set_union_index: "set (union_index a b) = set a \<union> set b"
  by (simp add: union_index_def)

lemma sorted_union_index: "sorted (union_index a b)"
  by (simp add: union_index_def)

lemma index_last_Inr_iff:
  "index_last f = Inr d \<longleftrightarrow> index f \<noteq> [] \<and> last (index f) = d"
  by (auto simp: index_last_def index_def last_map)

subsection \<open>Read after the raw series\<close>

text \<open>The steps of read after the raw series, in one equation.\<close>

lemma read_after_raw:
  assumes "read_raw_data E cfg ticker source origin (end_or_today end0 (today E)) w = (Inr raw_df, w1)"
  shows "read E cfg ticker source end0 w =
     (case working_table cfg ticker source raw_df w1 of
        Inl e \<Rightarrow> (Inl e, world_before_final_save cfg ticker source raw_df w1)
      | Inr df \<Rightarrow>
          (case (if end_or_today end0 (today E) = today E
                 then update_with_live_quote E ticker df else Inr df) of
             Inl e \<Rightarrow> (Inl e, world_before_final_save cfg ticker source raw_df w1)
           | Inr df' \<Rightarrow> (Inr df', save_raw_data ticker ''reference'' df'
                                   (world_before_final_save cfg ticker source raw_df w1))))"
proof (cases "use_reference cfg")
  case True
  have a: "world_before_final_save cfg ticker source raw_df w1
      = (save_raw_data ticker source raw_df w1)
          \<lparr>trace := trace (save_raw_data ticker source raw_df w1)
                      @ [CacheRead (market_data_filename ''reference'' ticker)]\<rparr>"
    using True by (simp add: world_before_final_save_def Let_def)
  have b: "working_table cfg ticker source raw_df w1
      = combine_ref_and_raw_data
          (files (save_raw_data ticker source raw_df w1) (market_data_filename ''reference'' ticker))
          raw_df"
    using True by (simp add: working_table_def)
  show ?thesis
    unfolding a b using assms True by (simp add: read_def Let_def read_cache_eq)
next
  case False
  have a: "world_before_final_save cfg ticker source raw_df w1 = save_raw_data ticker source raw_df w1"
    using False by (simp add: world_before_final_save_def Let_def)
  have b: "working_table cfg ticker source raw_df w1 = Inr raw_df"
    using False by (simp add: working_table_def)
  show ?thesis
    unfolding a b using assms False by (simp add: read_def Let_def)
qed

lemma files_world_before_final_save:
  "files (world_before_final_save cfg ticker source raw_df w1)
     = (files w1)(market_data_filename source ticker \<mapsto> raw_df)"
  by (simp add: world_before_final_save_def save_raw_data_eq Let_def)

lemma trace_world_before_final_save:
  "trace (world_before_final_save cfg ticker source raw_df w1)
     = trace w1 @ [CacheWrite (market_data_filename source ticker)]
         @ (if use_reference cfg then [CacheRead (market_data_filename ''reference'' ticker)] else [])"
  by (simp add: world_before_final_save_def save_raw_data_eq Let_def)

lemma read_files_raw:
  assumes "source \<noteq> ''reference''"
    and "fst (read_raw_data E cfg ticker source origin (end_or_today end0 (today E)) w) = Inr raw_df"
  shows "files (snd (read E cfg ticker source end0 w)) (market_data_filename source ticker)
           = Some raw_df"
proof -
  obtain w1 where raw: "read_raw_data E cfg ticker source origin (end_or_today end0 (today E)) w
      = (Inr raw_df, w1)"
    using assms(2) by (cases "read_raw_data E cfg ticker source origin (end_or_today end0 (today E)) w") auto
  show ?thesis
    using filename_reference_neq [OF assms(1), of ticker]
    by (simp add: read_after_raw [OF raw] files_world_before_final_save save_raw_data_eq
        split: sum.splits)
qed

lemma read_success:
  assumes "fst (read E cfg ticker source end0 w) = Inr df"
  shows "trace (snd (read E cfg ticker source end0 w))
           = trace (snd (read_raw_data E cfg ticker source origin (end_or_today end0 (today E)) w))
             @ [CacheWrite (market_data_filename source ticker)]
             @ (if use_reference cfg then [CacheRead (market_data_filename ''reference'' ticker)] else [])
             @ [CacheWrite (market_data_filename ''reference'' ticker)]
       \<and> files (snd (read E cfg ticker source end0 w)) (market_data_filename ''reference'' ticker)
           = Some df"
proof (cases "read_raw_data E cfg ticker source origin (end_or_today end0 (today E)) w")
  case (Pair r w1)
  show ?thesis
  proof (cases r)
    case (Inl e)
    with Pair assms show ?thesis by (simp add: read_def Let_def)
  next
    case (Inr raw_df)
    with Pair have raw: "read_raw_data E cfg ticker source origin (end_or_today end0 (today E)) w
      = (Inr raw_df, w1)" by simp
    note eq = read_after_raw [OF raw]
    show ?thesis
    proof (cases "working_table cfg ticker source raw_df w1")
      case (Inl e)
      with eq assms show ?thesis by simp
    next
      case wt: (Inr df0)
      show ?thesis
      proof (cases "if end_or_today end0 (today E) = today E
                    then update_with_live_quote E ticker df0 else Inr df0")
        case (Inl e)
        with eq wt assms show ?thesis by simp
      next
        case upd: (Inr df')
        have "read E cfg ticker source end0 w
            = (Inr df', save_raw_data ticker ''reference'' df'
                          (world_before_final_save cfg ticker source raw_df w1))"
          unfolding eq wt using upd by simp
        with assms show ?thesis
          by (simp add: raw trace_world_before_final_save save_raw_data_eq)
      qed
    qed
  qed
qed

lemma read_success_raw:
  assumes "fst (read E cfg ticker source end0 w) = Inr df"
  shows "\<exists>raw_df. fst (read_raw_data E cfg ticker source origin (end_or_today end0 (today E)) w)
            = Inr raw_df"
proof (cases "read_raw_data E cfg ticker source origin (end_or_today end0 (today E)) w")
  case (Pair r w1)
  then show ?thesis using assms by (cases r) (simp_all add: read_def Let_def)
qed

subsection \<open>Cells of slices and of combined frames\<close>

lemma map_of_filter_fst:
  "map_of (filter (\<lambda>r. P (fst r)) rs) d = (if P d then map_of rs d else None)"
  by (induction rs) auto

lemma value_at_restrict:
  assumes "columns g = columns f"
    and "map_of (rows g) d = (if P then map_of (rows f) d else None)"
  shows "value_at g d c = (if P then value_at f d c else NaN)"
  using assms by (simp add: value_at_def split: option.splits)

lemma value_at_ix_from: "value_at (ix_from s f) d c = (if s \<le> d then value_at f d c else NaN)"
  by (rule value_at_restrict)
    (simp_all add: ix_from_def map_of_filter_fst [where P = "\<lambda>d. s \<le> d"])


lemma map_of_map_key:
  "map_of (map (\<lambda>d. (d, F d)) xs) d = (if d \<in> set xs then Some (F d) else None)"
  by (induction xs) auto

lemma value_at_absent_date: "d \<notin> set (index f) \<Longrightarrow> value_at f d c = NaN"
proof -
  assume "d \<notin> set (index f)"
  then have "map_of (rows f) d = None"
    by (simp add: index_def map_of_eq_None_iff)
  then show ?thesis by (simp add: value_at_def)
qed

lemma value_at_absent_column: "c \<notin> set (columns f) \<Longrightarrow> value_at f d c = NaN"
  by (simp add: value_at_def split: option.splits)

lemma set_union_columns: "set (union_columns a b) = set a \<union> set b"
  by (simp add: union_columns_def)

lemma value_at_combine_first:
  assumes "combine_first a b = Inr df"
  shows "value_at df d c = combiner (value_at a d c) (value_at b d c)"
proof -
  let ?cols = "union_columns (columns a) (columns b)"
  let ?idx = "union_index (index a) (index b)"
  let ?F = "\<lambda>d. map (\<lambda>c. combiner (value_at a d c) (value_at b d c)) ?cols"
  have df: "df = \<lparr>columns = ?cols, rows = map (\<lambda>d. (d, ?F d)) ?idx\<rparr>"
    using assms by (auto simp: combine_first_def split: if_splits)
  show ?thesis
  proof (cases "d \<in> set ?idx")
    case False
    then have "value_at a d c = NaN" "value_at b d c = NaN"
      by (simp_all add: set_union_index value_at_absent_date)
    moreover have "value_at df d c = NaN"
      using False by (simp add: df value_at_def map_of_map_key)
    ultimately show ?thesis by (simp add: combiner_def)
  next
    case True
    show ?thesis
    proof (cases "c \<in> set ?cols")
      case False
      then have "value_at a d c = NaN" "value_at b d c = NaN"
        by (simp_all add: set_union_columns value_at_absent_column)
      moreover have "value_at df d c = NaN"
        using False by (simp add: df value_at_absent_column)
      ultimately show ?thesis by (simp add: combiner_def)
    next
      case c: True
      have "value_at df d c = cell_at (?F d) (pos c ?cols)"
        using True c by (simp add: df value_at_def map_of_map_key)
      also have "\<dots> = combiner (value_at a d c) (value_at b d c)"
        using c by (rule cell_at_map_pos)
      finally show ?thesis .
    qed
  qed
qed

lemma distinct_index_ix_from: "distinct (index f) \<Longrightarrow> distinct (index (ix_from s f))"
  by (simp add: index_def ix_from_def distinct_map_filter)

lemma combine_first_Inr:
  "distinct (index a) \<Longrightarrow> distinct (index b) \<Longrightarrow> \<exists>df. combine_first a b = Inr df"
  by (simp add: combine_first_def)

subsection \<open>The live overlay\<close>

lemma pos_inj: "c \<in> set cs \<Longrightarrow> pos c cs = pos c' cs \<Longrightarrow> c' \<in> set cs \<Longrightarrow> c = c'"
  by (metis nth_pos)

lemma ix_set_present:
  "c \<in> set (columns f) \<Longrightarrow>
   ix_set d c v f =
     f\<lparr>rows := map (\<lambda>r. if fst r = d then (fst r, (snd r)[pos c (columns f) := v]) else r) (rows f)\<rparr>"
  by (simp add: ix_set_def)

lemma map_only_last:
  assumes "distinct (map fst rs)" and "rs \<noteq> []" and "fst (last rs) = d"
  shows "map (\<lambda>r. if fst r = d then F r else r) rs = butlast rs @ [F (last rs)]"
proof -
  have rs: "rs = butlast rs @ [last rs]" using assms(2) by simp
  have "distinct (map fst (butlast rs @ [last rs]))" using assms(1) rs by simp
  then have "fst (last rs) \<notin> fst ` set (butlast rs)" by simp
  then have "\<forall>r \<in> set (butlast rs). fst r \<noteq> d"
    using assms(3) by (metis imageI)
  then have "map (\<lambda>r. if fst r = d then F r else r) (butlast rs) = butlast rs"
    by (simp add: map_idI)
  then have "map (\<lambda>r. if fst r = d then F r else r) (butlast rs @ [last rs])
      = butlast rs @ [F (last rs)]"
    using assms(3) by simp
  with rs show ?thesis by simp
qed

lemma read_result:
  assumes "fst (read_raw_data E cfg ticker source origin (end_or_today end0 (today E)) w) = Inr raw_df"
    and "working_table cfg ticker source raw_df
           (snd (read_raw_data E cfg ticker source origin (end_or_today end0 (today E)) w)) = Inr df0"
  shows "fst (read E cfg ticker source end0 w)
     = (if end_or_today end0 (today E) = today E
        then update_with_live_quote E ticker df0 else Inr df0)"
proof -
  let ?rw = "read_raw_data E cfg ticker source origin (end_or_today end0 (today E)) w"
  have raw: "?rw = (Inr raw_df, snd ?rw)"
    using assms(1) by (cases ?rw) simp
  show ?thesis
    using assms(2) by (simp add: read_after_raw [OF raw] split: sum.splits)
qed

subsection \<open>The reference overlay inside read\<close>

lemma read_raw_data_files:
  "files (snd (read_raw_data E cfg ticker source start end w)) = files w"
  by (simp add: read_raw_data_def read_cache_eq fetch_web_data_def Let_def
      split: option.splits sum.splits prod.splits)

lemma index_ix_set: "index (ix_set d c v f) = index f"
proof (cases "c \<in> set (columns f)")
  case True
  then show ?thesis by (simp add: ix_set_present index_def comp_def if_distrib cong: if_cong)
next
  case False
  have "map fst (map (\<lambda>(r, v). (fst r, snd r @ [v])) (zip rs (replicate (length rs) NaN)))
      = map fst rs" for rs :: "(date \<times> cell list) list"
    by (induction rs) auto
  then show ?thesis
    using False
    by (simp add: ix_set_def Let_def setitem_new_def index_def comp_def if_distrib cong: if_cong)
qed

lemma index_update_with_live_quote:
  "update_with_live_quote E ticker df = Inr df' \<Longrightarrow> index df' = index df"
  by (auto simp: update_with_live_quote_def Let_def index_ix_set
      split: option.splits sum.splits if_splits)

subsection \<open>Normalization is row-wise\<close>






subsection \<open>The incremental merge rebuilds the vendor series\<close>












section \<open>The claims\<close>

subsection \<open>C1: reading within the cached range\<close>

text \<open>
  C1, as amended. With caching enabled and a cached entry whose last date is strictly
  later than the requested end (in the string order the code compares with), the raw
  series is the cached table truncated to \<open>[:end]\<close>, the whole read makes no request
  to the vendor, and read returns that truncated table when the reference overlay is
  off and the end is not today.
\<close>

theorem read_short_circuits_when_cache_is_later:
  assumes en: "enable_cache cfg"
    and cache: "files w (market_data_filename source ticker) = Some cache_df"
    and last: "index_last cache_df = Inr cache_end"
    and later: "cache_end > end_or_today end0 (today E)"
  shows "read_raw_data E cfg ticker source origin (end_or_today end0 (today E)) w
           = (Inr (ix_to (end_or_today end0 (today E)) cache_df),
              w\<lparr>trace := trace w @ [CacheRead (market_data_filename source ticker)]\<rparr>)
       \<and> web_calls (snd (read E cfg ticker source end0 w)) = web_calls w
       \<and> (\<not> use_reference cfg \<and> end_or_today end0 (today E) \<noteq> today E
            \<longrightarrow> fst (read E cfg ticker source end0 w)
                  = Inr (ix_to (end_or_today end0 (today E)) cache_df))"
proof -
  let ?e = "end_or_today end0 (today E)"
  have raw: "read_raw_data E cfg ticker source origin ?e w
           = (Inr (ix_to ?e cache_df),
              w\<lparr>trace := trace w @ [CacheRead (market_data_filename source ticker)]\<rparr>)"
    using en cache last later by (simp add: read_raw_data_def read_cache_eq)
  have calls: "web_calls (snd (read E cfg ticker source end0 w)) = web_calls w"
    unfolding read_web_calls raw by (simp add: web_calls_def)
  have ret: "\<not> use_reference cfg \<Longrightarrow> ?e \<noteq> today E
      \<Longrightarrow> fst (read E cfg ticker source end0 w) = Inr (ix_to ?e cache_df)"
    by (simp add: read_no_reference [OF raw])
  from raw calls ret show ?thesis by blast
qed

text \<open>
  The hypotheses hold for the sample cache, which ends on 2017-09-01, and the end
  2017-08-31.
\<close>

theorem read_short_circuits_when_cache_is_later_witness:
  "enable_cache raw_only
   \<and> files world_after_first_read (market_data_filename ''yahoo'' ''GOOG'') = Some sample_cache
   \<and> index_last sample_cache = Inr ''2017-09-01''
   \<and> ''2017-09-01'' > end_or_today (Some ''2017-08-31'') (today sample_env)
   \<and> \<not> use_reference raw_only
   \<and> end_or_today (Some ''2017-08-31'') (today sample_env) \<noteq> today sample_env
   \<and> web_calls (snd (read sample_env raw_only ''GOOG'' ''yahoo'' (Some ''2017-08-31'') world_after_first_read))
       = web_calls world_after_first_read
   \<and> fst (read sample_env raw_only ''GOOG'' ''yahoo'' (Some ''2017-08-31'') world_after_first_read)
       = Inr (ix_to ''2017-08-31'' sample_cache)"
proof -
  have h1: "enable_cache raw_only" by (simp add: raw_only_def)
  have h2: "files world_after_first_read (market_data_filename ''yahoo'' ''GOOG'') = Some sample_cache"
    by (simp add: world_after_first_read_def market_data_filename_def)
  have h3: "index_last sample_cache = Inr ''2017-09-01''"
    by (simp add: index_last_def sample_cache_def)
  have e: "end_or_today (Some ''2017-08-31'') (today sample_env) = ''2017-08-31''"
    by (simp add: end_or_today_def)
  have h4: "''2017-09-01'' > end_or_today (Some ''2017-08-31'') (today sample_env)"
    by (simp add: e)
  have h5: "\<not> use_reference raw_only" by (simp add: raw_only_def)
  have h6: "end_or_today (Some ''2017-08-31'') (today sample_env) \<noteq> today sample_env"
    unfolding e by (simp add: sample_env_def)
  show ?thesis
    using read_short_circuits_when_cache_is_later [OF h1 h2 h3 h4] h1 h2 h3 h4 h5 h6
    by (simp add: e)
qed

text \<open>
  C1 as stated fails when the requested end equals the cached end: the test is
  \<open>cache_end > end\<close>. A first read up to 2017-09-01 on an empty store leaves a
  cache ending on 2017-09-01; a second read with the same end asks the vendor again,
  for the range from 2017-09-01 to 2017-09-01.
\<close>

theorem second_read_with_same_end_fetches_again:
  "read sample_env raw_only ''GOOG'' ''yahoo'' (Some ''2017-09-01'') empty_world
     = (Inr sample_cache, world_after_first_read)
   \<and> files world_after_first_read (market_data_filename ''yahoo'' ''GOOG'') = Some sample_cache
   \<and> index_last sample_cache = Inr ''2017-09-01''
   \<and> web_calls (snd (read sample_env raw_only ''GOOG'' ''yahoo'' (Some ''2017-09-01'')
                        world_after_first_read))
       = web_calls world_after_first_read
           @ [WebCall ''GOOG'' ''yahoo'' ''2017-09-01'' ''2017-09-01'']"
proof -
  have a: "read sample_env raw_only ''GOOG'' ''yahoo'' (Some ''2017-09-01'') empty_world
     = (Inr sample_cache, world_after_first_read)"
    by (simp add: program_defs frame_ops sample_defs sample_cache_def world_after_first_read_def)
  have b: "files world_after_first_read (market_data_filename ''yahoo'' ''GOOG'') = Some sample_cache"
    by (simp add: world_after_first_read_def market_data_filename_def)
  have c: "index_last sample_cache = Inr ''2017-09-01''"
    by (simp add: index_last_def sample_cache_def)
  have d: "web_calls (snd (read sample_env raw_only ''GOOG'' ''yahoo'' (Some ''2017-09-01'')
                        world_after_first_read))
       = web_calls world_after_first_read
           @ [WebCall ''GOOG'' ''yahoo'' ''2017-09-01'' ''2017-09-01'']"
    by (simp add: program_defs frame_ops sample_defs sample_cache_def world_after_first_read_def
        web_calls_def)
  from a b c d show ?thesis by blast
qed

subsection \<open>C2: what is persisted under (ticker, source)\<close>

text \<open>
  C2, as amended. Once step 1 has produced a raw series, read persists it under
  (ticker, source), whatever happens afterwards. With caching enabled and a cached
  entry whose last date is not later than the requested end, the persisted entry
  holds every date of the previous entry, and its last date is not earlier than the
  previous last date.
\<close>

theorem raw_series_persisted_and_cache_end_kept:
  assumes src: "source \<noteq> ''reference''"
    and raw: "fst (read_raw_data E cfg ticker source origin (end_or_today end0 (today E)) w)
                = Inr raw_df"
  shows "files (snd (read E cfg ticker source end0 w)) (market_data_filename source ticker)
           = Some raw_df
       \<and> (\<forall>cache_df cache_end.
             enable_cache cfg
             \<and> files w (market_data_filename source ticker) = Some cache_df
             \<and> index_last cache_df = Inr cache_end
             \<and> \<not> cache_end > end_or_today end0 (today E)
             \<longrightarrow> set (index cache_df) \<subseteq> set (index raw_df)
                 \<and> (\<exists>m. index_last raw_df = Inr m \<and> cache_end \<le> m))"
proof -
  let ?e = "end_or_today end0 (today E)"
  let ?fn = "market_data_filename source ticker"
  have persisted: "files (snd (read E cfg ticker source end0 w)) ?fn = Some raw_df"
    by (rule read_files_raw [OF src raw])
  have kept: "set (index cache_df) \<subseteq> set (index raw_df)
                 \<and> (\<exists>m. index_last raw_df = Inr m \<and> cache_end \<le> m)"
    if en: "enable_cache cfg" and cache: "files w ?fn = Some cache_df"
      and last: "index_last cache_df = Inr cache_end" and nl: "\<not> cache_end > ?e"
    for cache_df cache_end
  proof -
    let ?w1 = "w\<lparr>trace := trace w @ [CacheRead ?fn]\<rparr>"
    have step: "read_raw_data E cfg ticker source origin ?e w =
        (case fetch_web_data E ticker source cache_end ?e ?w1 of
           (Inl e, w2) \<Rightarrow> (Inl e, w2)
         | (Inr web_df, w2) \<Rightarrow> (combine_first web_df cache_df, w2))"
      using en cache last nl by (simp add: read_raw_data_def read_cache_eq)
    obtain web_df where comb: "combine_first web_df cache_df = Inr raw_df"
      using raw unfolding step by (auto split: prod.splits sum.splits)
    have idx: "index raw_df = union_index (index web_df) (index cache_df)"
      by (rule combine_first_index [OF comb])
    have ne: "index cache_df \<noteq> []" and l: "last (index cache_df) = cache_end"
      using last by (simp_all add: index_last_Inr_iff)
    then have mem: "cache_end \<in> set (index raw_df)"
      using last_in_set [OF ne] by (simp add: idx set_union_index)
    then have ne': "index raw_df \<noteq> []" by auto
    have "cache_end \<le> last (index raw_df)"
      using mem by (intro sorted_le_last) (simp_all add: idx sorted_union_index)
    then show ?thesis
      using ne' by (auto simp: idx set_union_index index_last_Inr_iff)
  qed
  from persisted kept show ?thesis by blast
qed

text \<open>
  The hypotheses hold for the sample cache and the end 2017-09-05.
\<close>

theorem raw_series_persisted_and_cache_end_kept_witness:
  "''yahoo'' \<noteq> ''reference''
   \<and> fst (read_raw_data sample_env raw_only ''GOOG'' ''yahoo'' origin
             (end_or_today (Some ''2017-09-05'') (today sample_env)) world_after_first_read)
       = Inr sample_merged
   \<and> enable_cache raw_only
   \<and> files world_after_first_read (market_data_filename ''yahoo'' ''GOOG'') = Some sample_cache
   \<and> index_last sample_cache = Inr ''2017-09-01''
   \<and> \<not> ''2017-09-01'' > end_or_today (Some ''2017-09-05'') (today sample_env)
   \<and> files (snd (read sample_env raw_only ''GOOG'' ''yahoo'' (Some ''2017-09-05'') world_after_first_read))
        (market_data_filename ''yahoo'' ''GOOG'') = Some sample_merged
   \<and> set (index sample_cache) \<subseteq> set (index sample_merged)
   \<and> (\<exists>m. index_last sample_merged = Inr m \<and> ''2017-09-01'' \<le> m)"
proof -
  have h1: "''yahoo'' \<noteq> ''reference''" by simp
  have h2: "fst (read_raw_data sample_env raw_only ''GOOG'' ''yahoo'' origin
             (end_or_today (Some ''2017-09-05'') (today sample_env)) world_after_first_read)
       = Inr sample_merged"
    by (simp add: program_defs frame_ops sample_defs sample_cache_def world_after_first_read_def
        sample_merged_def)
  have h3: "enable_cache raw_only" by (simp add: raw_only_def)
  have h4: "files world_after_first_read (market_data_filename ''yahoo'' ''GOOG'') = Some sample_cache"
    by (simp add: world_after_first_read_def market_data_filename_def)
  have h5: "index_last sample_cache = Inr ''2017-09-01''"
    by (simp add: index_last_def sample_cache_def)
  have h6: "\<not> ''2017-09-01'' > end_or_today (Some ''2017-09-05'') (today sample_env)"
    by (simp add: end_or_today_def)
  show ?thesis
    using raw_series_persisted_and_cache_end_kept [OF h1 h2] h1 h2 h3 h4 h5 h6 by blast
qed

text \<open>
  C2 as stated fails: a read with an end earlier than the cached end persists the
  truncated table. The cache ends on 2017-09-01; after a read up to 2017-08-31 it ends
  on 2017-08-31.
\<close>

theorem earlier_end_shrinks_persisted_cache:
  "files world_after_first_read ''GOOG.yahoo.csv'' = Some sample_cache
   \<and> index_last sample_cache = Inr ''2017-09-01''
   \<and> files (snd (read sample_env raw_only ''GOOG'' ''yahoo'' (Some ''2017-08-31'')
                    world_after_first_read)) ''GOOG.yahoo.csv''
       = Some (ix_to ''2017-08-31'' sample_cache)
   \<and> index_last (ix_to ''2017-08-31'' sample_cache) = Inr ''2017-08-31''
   \<and> ''2017-08-31'' < ''2017-09-01''"
proof -
  have a: "files world_after_first_read ''GOOG.yahoo.csv'' = Some sample_cache"
    by (simp add: world_after_first_read_def)
  have b: "index_last sample_cache = Inr ''2017-09-01''"
    by (simp add: index_last_def sample_cache_def)
  have c: "files (snd (read sample_env raw_only ''GOOG'' ''yahoo'' (Some ''2017-08-31'')
                    world_after_first_read)) ''GOOG.yahoo.csv''
       = Some (ix_to ''2017-08-31'' sample_cache)"
    by (simp add: program_defs frame_ops sample_defs sample_cache_def world_after_first_read_def)
  have d: "index_last (ix_to ''2017-08-31'' sample_cache) = Inr ''2017-08-31''"
    by (simp add: index_last_def ix_to_def sample_cache_def)
  have e: "''2017-08-31'' < ''2017-09-01''" by simp
  from a b c d e show ?thesis by blast
qed

subsection \<open>C3: incremental fetch\<close>




subsection \<open>C4: caching disabled\<close>

text \<open>
  C4, as amended. With \<open>enable_cache\<close> false, step 1 is the direct fetch of
  \<open>[origin, end]\<close>: it reads no cache file and writes none. A read that returns
  still writes the raw series under (ticker, source) and the returned table under the
  reference key, and reads the reference entry when \<open>use_reference\<close> is on.
\<close>

theorem cache_disabled_skips_only_the_cached_read:
  assumes dis: "\<not> enable_cache cfg"
  shows "read_raw_data E cfg ticker source origin e w = fetch_web_data E ticker source origin e w
       \<and> snd (read_raw_data E cfg ticker source origin e w)
           = w\<lparr>trace := trace w @ [WebCall ticker source origin e]\<rparr>
       \<and> (\<forall>df. fst (read E cfg ticker source end0 w) = Inr df \<longrightarrow>
             trace (snd (read E cfg ticker source end0 w))
               = trace w
                 @ [WebCall ticker source origin (end_or_today end0 (today E)),
                    CacheWrite (market_data_filename source ticker)]
                 @ (if use_reference cfg
                    then [CacheRead (market_data_filename ''reference'' ticker)] else [])
                 @ [CacheWrite (market_data_filename ''reference'' ticker)]
             \<and> files (snd (read E cfg ticker source end0 w))
                 (market_data_filename ''reference'' ticker) = Some df
             \<and> (source \<noteq> ''reference'' \<longrightarrow>
                  (\<exists>raw_df. fst (fetch_web_data E ticker source origin
                                   (end_or_today end0 (today E)) w) = Inr raw_df
                     \<and> files (snd (read E cfg ticker source end0 w))
                         (market_data_filename source ticker) = Some raw_df)))"
proof -
  have raw: "\<And>e. read_raw_data E cfg ticker source origin e w
                = fetch_web_data E ticker source origin e w"
    using dis by (simp add: read_raw_data_def)
  have w: "\<And>e. snd (read_raw_data E cfg ticker source origin e w)
           = w\<lparr>trace := trace w @ [WebCall ticker source origin e]\<rparr>"
    by (simp add: raw snd_fetch_web_data)
  have ok: "trace (snd (read E cfg ticker source end0 w))
               = trace w
                 @ [WebCall ticker source origin (end_or_today end0 (today E)),
                    CacheWrite (market_data_filename source ticker)]
                 @ (if use_reference cfg
                    then [CacheRead (market_data_filename ''reference'' ticker)] else [])
                 @ [CacheWrite (market_data_filename ''reference'' ticker)]
             \<and> files (snd (read E cfg ticker source end0 w))
                 (market_data_filename ''reference'' ticker) = Some df
             \<and> (source \<noteq> ''reference'' \<longrightarrow>
                  (\<exists>raw_df. fst (fetch_web_data E ticker source origin
                                   (end_or_today end0 (today E)) w) = Inr raw_df
                     \<and> files (snd (read E cfg ticker source end0 w))
                         (market_data_filename source ticker) = Some raw_df))"
    if s: "fst (read E cfg ticker source end0 w) = Inr df" for df
  proof -
    obtain raw_df where r: "fst (read_raw_data E cfg ticker source origin
                                   (end_or_today end0 (today E)) w) = Inr raw_df"
      using read_success_raw [OF s] by blast
    have f: "source \<noteq> ''reference'' \<Longrightarrow>
        files (snd (read E cfg ticker source end0 w)) (market_data_filename source ticker)
          = Some raw_df"
      by (rule read_files_raw [OF _ r])
    show ?thesis
      using read_success [OF s] r f by (simp add: raw snd_fetch_web_data)
  qed
  from raw w ok show ?thesis by blast
qed

text \<open>
  The read of the test suite, with both options off, on an empty store.
\<close>

theorem cache_disabled_skips_only_the_cached_read_witness:
  "\<not> enable_cache no_cache
   \<and> fst (read sample_env no_cache ''GOOG'' ''yahoo'' (Some ''2017-09-01'') empty_world)
       = Inr sample_cache
   \<and> ''yahoo'' \<noteq> ''reference''
   \<and> read_raw_data sample_env no_cache ''GOOG'' ''yahoo'' origin ''2017-09-01'' empty_world
       = fetch_web_data sample_env ''GOOG'' ''yahoo'' origin ''2017-09-01'' empty_world
   \<and> trace (snd (read sample_env no_cache ''GOOG'' ''yahoo'' (Some ''2017-09-01'') empty_world))
       = [WebCall ''GOOG'' ''yahoo'' ''1926-01-01'' ''2017-09-01'',
          CacheWrite ''GOOG.yahoo.csv'', CacheWrite ''GOOG.csv'']
   \<and> files (snd (read sample_env no_cache ''GOOG'' ''yahoo'' (Some ''2017-09-01'') empty_world))
        ''GOOG.csv'' = Some sample_cache"
proof -
  have h1: "\<not> enable_cache no_cache" by (simp add: no_cache_def)
  have h2: "fst (read sample_env no_cache ''GOOG'' ''yahoo'' (Some ''2017-09-01'') empty_world)
       = Inr sample_cache"
    by (simp add: program_defs frame_ops sample_defs sample_cache_def)
  have h3: "''yahoo'' \<noteq> ''reference''" by simp
  have nr: "\<not> use_reference no_cache" by (simp add: no_cache_def)
  have e: "end_or_today (Some ''2017-09-01'') (today sample_env) = ''2017-09-01''"
    by (simp add: end_or_today_def)
  have t: "trace empty_world = []" by (simp add: empty_world_def)
  note inst = cache_disabled_skips_only_the_cached_read
    [OF h1, of sample_env "''GOOG''" "''yahoo''" "''2017-09-01''" empty_world "Some ''2017-09-01''"]
  from inst h2 have "trace (snd (read sample_env no_cache ''GOOG'' ''yahoo'' (Some ''2017-09-01'') empty_world))
       = trace empty_world
                 @ [WebCall ''GOOG'' ''yahoo'' origin (end_or_today (Some ''2017-09-01'') (today sample_env)),
                    CacheWrite (market_data_filename ''yahoo'' ''GOOG'')]
                 @ (if use_reference no_cache
                    then [CacheRead (market_data_filename ''reference'' ''GOOG'')] else [])
                 @ [CacheWrite (market_data_filename ''reference'' ''GOOG'')]"
     and f: "files (snd (read sample_env no_cache ''GOOG'' ''yahoo'' (Some ''2017-09-01'') empty_world))
                 (market_data_filename ''reference'' ''GOOG'') = Some sample_cache"
    by blast+
  then have tr: "trace (snd (read sample_env no_cache ''GOOG'' ''yahoo'' (Some ''2017-09-01'') empty_world))
       = [WebCall ''GOOG'' ''yahoo'' ''1926-01-01'' ''2017-09-01'',
          CacheWrite ''GOOG.yahoo.csv'', CacheWrite ''GOOG.csv'']"
    unfolding e t by (simp add: nr market_data_filename_def origin_def)
  from f have f': "files (snd (read sample_env no_cache ''GOOG'' ''yahoo'' (Some ''2017-09-01'') empty_world))
        ''GOOG.csv'' = Some sample_cache"
    by (simp add: market_data_filename_def)
  from inst h1 h2 h3 tr f' show ?thesis by blast
qed

text \<open>
  C4 as stated fails: with \<open>enable_cache\<close> false a read on an empty store writes
  both cache files and reads the reference file.
\<close>

theorem cache_disabled_read_still_uses_store:
  "\<not> enable_cache no_cache_with_reference
   \<and> files empty_world ''GOOG.yahoo.csv'' = None
   \<and> trace (snd (read sample_env no_cache_with_reference ''GOOG'' ''yahoo'' (Some ''2017-09-01'')
                   empty_world))
       = [WebCall ''GOOG'' ''yahoo'' ''1926-01-01'' ''2017-09-01'',
          CacheWrite ''GOOG.yahoo.csv'', CacheRead ''GOOG.csv'', CacheWrite ''GOOG.csv'']
   \<and> files (snd (read sample_env no_cache_with_reference ''GOOG'' ''yahoo'' (Some ''2017-09-01'')
                   empty_world)) ''GOOG.yahoo.csv'' = Some sample_cache"
proof -
  have a: "\<not> enable_cache no_cache_with_reference" by (simp add: no_cache_with_reference_def)
  have b: "files empty_world ''GOOG.yahoo.csv'' = None" by (simp add: empty_world_def)
  have c: "trace (snd (read sample_env no_cache_with_reference ''GOOG'' ''yahoo'' (Some ''2017-09-01'')
                   empty_world))
       = [WebCall ''GOOG'' ''yahoo'' ''1926-01-01'' ''2017-09-01'',
          CacheWrite ''GOOG.yahoo.csv'', CacheRead ''GOOG.csv'', CacheWrite ''GOOG.csv'']"
    by (simp add: program_defs frame_ops sample_defs no_cache_with_reference_def)
  have d: "files (snd (read sample_env no_cache_with_reference ''GOOG'' ''yahoo'' (Some ''2017-09-01'')
                   empty_world)) ''GOOG.yahoo.csv'' = Some sample_cache"
    by (simp add: program_defs frame_ops sample_defs no_cache_with_reference_def sample_cache_def)
  from a b c d show ?thesis by blast
qed

subsection \<open>C5: casts and column selection\<close>

text \<open>
  C5. The claim: the normalized result has Open, High, Low, Close and Volume cast to
  64-bit floats and consists of exactly the six columns in the fixed order. The six
  columns and their order hold (\<open>normalize_columns\<close>); the cast does not: each
  \<open>astype\<close> result is dropped, so an integer volume of the vendor is still an
  integer in the result. Here the code is run on the sample vendor.
\<close>

theorem fetch_web_data_keeps_int64_volume:
  "fst (fetch_web_data sample_env ''GOOG'' ''yahoo'' origin ''2017-09-01'' empty_world)
     = Inr \<lparr>columns = [''Open'', ''High'', ''Low'', ''Close'', ''Adj Close'', ''Volume''],
            rows = [(''2017-08-31'', [FloatV 10, FloatV 12, FloatV 9, FloatV 11, FloatV 11, IntV 100]),
                    (''2017-09-01'', [FloatV 11, FloatV 13, FloatV 10, FloatV 12, FloatV 12, IntV 200])]\<rparr>
   \<and> \<not> is_float64 (IntV 100)
   \<and> astype_float64 [IntV 100, IntV 200] = [FloatV 100, FloatV 200]"
  by (simp add: fetch_web_data_def sample_env_def mock_web_reader_def ix_range_def
      sample_series_def normalize_web_df_def getitem_def select_columns_def setitem_new_def
      cell_at_def col_defs origin_def empty_world_def Let_def is_float64_def astype_float64_def)

subsection \<open>C6: the adjusted close defaults to the close\<close>

text \<open>
  C6. For every vendor table without an Adj Close column (and with the five columns
  the normalization reads), the fetch returns a table whose Adj Close column equals,
  row for row, its Close column, which is the vendor's Close column.
\<close>

theorem adj_close_defaults_to_close:
  assumes rect: "rectangular web_df"
    and noadj: "AdjCloseCol \<notin> set (columns web_df)"
    and five: "set [OpenCol, CloseCol, HighCol, LowCol, VolumeCol] \<subseteq> set (columns web_df)"
    and web: "web_DataReader E ticker source start end = Inr web_df"
  shows "\<exists>df. fst (fetch_web_data E ticker source start end w) = Inr df
           \<and> getitem df AdjCloseCol = getitem df CloseCol
           \<and> getitem df CloseCol = getitem web_df CloseCol"
proof -
  let ?cols = "columns web_df"
  have closein: "CloseCol \<in> set ?cols" using five by simp
  have n: "normalize_web_df web_df =
     Inr \<lparr>columns = six_columns,
          rows = map (\<lambda>r. (fst r, map (\<lambda>c. cell_at (snd r @ [cell_at (snd r) (pos CloseCol ?cols)])
                                               (pos c (?cols @ [AdjCloseCol]))) six_columns))
                     (rows web_df)\<rparr>" (is "_ = Inr ?df")
    by (rule normalize_without_adj [OF noadj five])
  have len: "\<And>r. r \<in> set (rows web_df) \<Longrightarrow> length (snd r) = length ?cols"
    using rect by (simp add: rectangular_def list_all_iff)
  have adj: "\<And>r. r \<in> set (rows web_df) \<Longrightarrow>
      cell_at (snd r @ [cell_at (snd r) (pos CloseCol ?cols)]) (pos AdjCloseCol (?cols @ [AdjCloseCol]))
        = cell_at (snd r) (pos CloseCol ?cols)"
  proof -
    fix r assume "r \<in> set (rows web_df)"
    then have l: "length ?cols = length (snd r)" by (simp add: len)
    have "pos AdjCloseCol (?cols @ [AdjCloseCol]) = length (snd r)"
      using noadj l by (simp add: pos_append_notin)
    then show "cell_at (snd r @ [cell_at (snd r) (pos CloseCol ?cols)]) (pos AdjCloseCol (?cols @ [AdjCloseCol]))
        = cell_at (snd r) (pos CloseCol ?cols)"
      by (simp add: cell_at_append_last)
  qed
  have cl: "\<And>r. r \<in> set (rows web_df) \<Longrightarrow>
      cell_at (snd r @ [cell_at (snd r) (pos CloseCol ?cols)]) (pos CloseCol (?cols @ [AdjCloseCol]))
        = cell_at (snd r) (pos CloseCol ?cols)"
    using closein by (simp add: pos_append_in len pos_less cell_at_append_left)
  have g1: "getitem ?df AdjCloseCol = Inr (map (\<lambda>r. cell_at (snd r) (pos CloseCol ?cols)) (rows web_df))"
    using adj by (simp add: getitem_selected six_columns_mem)
  have g2: "getitem ?df CloseCol = Inr (map (\<lambda>r. cell_at (snd r) (pos CloseCol ?cols)) (rows web_df))"
    using cl by (simp add: getitem_selected six_columns_mem)
  have g3: "getitem web_df CloseCol = Inr (map (\<lambda>r. cell_at (snd r) (pos CloseCol ?cols)) (rows web_df))"
    using closein by (simp add: getitem_def)
  have "fst (fetch_web_data E ticker source start end w) = Inr ?df"
    using web n by (simp add: fetch_web_data_def Let_def)
  then show ?thesis using g1 g2 g3 by simp
qed

text \<open>
  The hypotheses hold for what the sample vendor returns up to 2017-09-01.
\<close>

theorem adj_close_defaults_to_close_witness:
  "rectangular (ix_range origin ''2017-09-01'' sample_series)
   \<and> AdjCloseCol \<notin> set (columns (ix_range origin ''2017-09-01'' sample_series))
   \<and> web_DataReader sample_env ''GOOG'' ''yahoo'' origin ''2017-09-01''
        = Inr (ix_range origin ''2017-09-01'' sample_series)
   \<and> (\<exists>df. fst (fetch_web_data sample_env ''GOOG'' ''yahoo'' origin ''2017-09-01'' empty_world) = Inr df
           \<and> getitem df AdjCloseCol = getitem df CloseCol
           \<and> getitem df CloseCol = Inr [FloatV 11, FloatV 12])"
proof -
  let ?f = "ix_range origin ''2017-09-01'' sample_series"
  have f: "?f = \<lparr>columns = [''Open'', ''High'', ''Low'', ''Close'', ''Volume''],
      rows = [(''2017-08-31'', [FloatV 10, FloatV 12, FloatV 9, FloatV 11, IntV 100]),
              (''2017-09-01'', [FloatV 11, FloatV 13, FloatV 10, FloatV 12, IntV 200])]\<rparr>"
    by (simp add: ix_range_def sample_series_def origin_def)
  have h1: "rectangular ?f" by (simp add: f rectangular_def)
  have h2: "AdjCloseCol \<notin> set (columns ?f)" by (simp add: f col_defs)
  have h3: "set [OpenCol, CloseCol, HighCol, LowCol, VolumeCol] \<subseteq> set (columns ?f)"
    by (simp add: f col_defs)
  have h4: "web_DataReader sample_env ''GOOG'' ''yahoo'' origin ''2017-09-01'' = Inr ?f"
    by (simp add: sample_env_def mock_web_reader_def)
  have g: "getitem ?f CloseCol = Inr [FloatV 11, FloatV 12]"
    by (simp add: f getitem_def col_defs cell_at_def)
  show ?thesis
    using adj_close_defaults_to_close [OF h1 h2 h3 h4, of empty_world] h1 h2 h4 g by simp
qed

subsection \<open>C7: reference precedence\<close>

text \<open>
  C7. Without a reference entry the combined result is the raw series. With a
  reference table whose last date is \<open>Dr\<close> and which holds a value \<open>V\<close> at
  \<open>Dr\<close>, the combined table holds \<open>V\<close> at \<open>Dr\<close>, whatever the raw series holds
  there; at every date and column the reference value is kept where there is one,
  and a raw value is used only where the reference has none and the date is not
  before \<open>Dr\<close>.
\<close>

theorem reference_wins_on_overlap:
  "combine_ref_and_raw_data None raw_df = Inr raw_df
   \<and> (index_last ref_df = Inr Dr \<and> distinct (index ref_df) \<and> distinct (index raw_df)
        \<and> value_at ref_df Dr c = V \<and> V \<noteq> NaN
      \<longrightarrow> (\<exists>df. combine_ref_and_raw_data (Some ref_df) raw_df = Inr df
              \<and> value_at df Dr c = V
              \<and> (\<forall>d c'. value_at df d c' =
                    (if value_at ref_df d c' \<noteq> NaN then value_at ref_df d c'
                     else if Dr \<le> d then value_at raw_df d c' else NaN))))"
proof -
  have absent: "combine_ref_and_raw_data None raw_df = Inr raw_df"
    by (simp add: combine_ref_and_raw_data_def)
  have present: "\<exists>df. combine_ref_and_raw_data (Some ref_df) raw_df = Inr df
              \<and> value_at df Dr c = V
              \<and> (\<forall>d c'. value_at df d c' =
                    (if value_at ref_df d c' \<noteq> NaN then value_at ref_df d c'
                     else if Dr \<le> d then value_at raw_df d c' else NaN))"
    if last: "index_last ref_df = Inr Dr" and d1: "distinct (index ref_df)"
      and d2: "distinct (index raw_df)" and v: "value_at ref_df Dr c = V" and nn: "V \<noteq> NaN"
  proof -
    obtain df where comb: "combine_first ref_df (ix_from Dr raw_df) = Inr df"
      using combine_first_Inr [OF d1 distinct_index_ix_from [OF d2]] by blast
    have res: "combine_ref_and_raw_data (Some ref_df) raw_df = Inr df"
      using last comb by (simp add: combine_ref_and_raw_data_def)
    have cells: "value_at df d c' =
                    (if value_at ref_df d c' \<noteq> NaN then value_at ref_df d c'
                     else if Dr \<le> d then value_at raw_df d c' else NaN)" for d c'
      by (simp add: value_at_combine_first [OF comb] combiner_def value_at_ix_from)
    have "value_at df Dr c = V"
      using v nn by (simp add: cells)
    with res cells show ?thesis by blast
  qed
  from absent present show ?thesis by blast
qed

text \<open>
  The sample reference holds 99 as the close of 2017-09-05, where the raw series
  holds 13.
\<close>

theorem reference_wins_on_overlap_witness:
  "index_last sample_reference = Inr ''2017-09-05''
   \<and> distinct (index sample_reference) \<and> distinct (index sample_merged)
   \<and> value_at sample_reference ''2017-09-05'' ''Close'' = FloatV 99 \<and> FloatV 99 \<noteq> NaN
   \<and> value_at sample_merged ''2017-09-05'' ''Close'' = FloatV 13
   \<and> (\<exists>df. combine_ref_and_raw_data (Some sample_reference) sample_merged = Inr df
          \<and> value_at df ''2017-09-05'' ''Close'' = FloatV 99)"
proof -
  have h1: "index_last sample_reference = Inr ''2017-09-05''"
    by (simp add: index_last_def sample_reference_def)
  have h2: "distinct (index sample_reference)" by (simp add: index_def sample_reference_def)
  have h3: "distinct (index sample_merged)" by (simp add: index_def sample_merged_def)
  have h4: "value_at sample_reference ''2017-09-05'' ''Close'' = FloatV 99"
    by (simp add: value_at_def sample_reference_def cell_at_def)
  have h5: "FloatV 99 \<noteq> NaN" by simp
  have h6: "value_at sample_merged ''2017-09-05'' ''Close'' = FloatV 13"
    by (simp add: value_at_def sample_merged_def cell_at_def)
  show ?thesis
    using reference_wins_on_overlap
      [of sample_merged sample_reference "''2017-09-05''" "''Close''" "FloatV 99"]
      h1 h2 h3 h4 h5 h6 by blast
qed

subsection \<open>C8: live overlay\<close>

text \<open>
  C8. The live overlay, which read applies to the working table exactly when the
  requested end is today (last conjunct). Without a quote, or with a quote whose date
  is not the date of the last row, the table is returned as it is. With a quote dated
  as the last row, of a table with unique dates, the last row gets the price in its
  Adj Close cell and keeps every other cell; the rows before it and the columns are
  unchanged.
\<close>

theorem live_quote_overlays_last_row_only:
  "(fetch_live_quote E ticker = None \<longrightarrow> update_with_live_quote E ticker df = Inr df)
   \<and> (fetch_live_quote E ticker = Some ((qd, tm), price) \<and> index_last df = Inr ld \<and> ld \<noteq> qd
        \<longrightarrow> update_with_live_quote E ticker df = Inr df)
   \<and> (fetch_live_quote E ticker = Some ((qd, tm), price) \<and> index_last df = Inr qd
        \<and> distinct (index df) \<and> rectangular df \<and> AdjCloseCol \<in> set (columns df)
        \<longrightarrow> (\<exists>cs. last (rows df) = (qd, cs)
               \<and> update_with_live_quote E ticker df
                   = Inr (df\<lparr>rows := butlast (rows df)
                                    @ [(qd, cs[pos AdjCloseCol (columns df) := FloatV price])]\<rparr>)
               \<and> cell_at (cs[pos AdjCloseCol (columns df) := FloatV price])
                    (pos AdjCloseCol (columns df)) = FloatV price
               \<and> (\<forall>c \<in> set (columns df). c \<noteq> AdjCloseCol \<longrightarrow>
                     cell_at (cs[pos AdjCloseCol (columns df) := FloatV price]) (pos c (columns df))
                       = cell_at cs (pos c (columns df)))))
   \<and> (fst (read_raw_data E cfg ticker source origin (end_or_today end0 (today E)) w) = Inr raw_df
        \<and> working_table cfg ticker source raw_df
             (snd (read_raw_data E cfg ticker source origin (end_or_today end0 (today E)) w))
            = Inr df
        \<longrightarrow> fst (read E cfg ticker source end0 w)
              = (if end_or_today end0 (today E) = today E
                 then update_with_live_quote E ticker df else Inr df))"
proof -
  have absent: "fetch_live_quote E ticker = None \<Longrightarrow> update_with_live_quote E ticker df = Inr df"
    by (simp add: update_with_live_quote_def)
  have mismatch: "update_with_live_quote E ticker df = Inr df"
    if "fetch_live_quote E ticker = Some ((qd, tm), price)" "index_last df = Inr ld" "ld \<noteq> qd"
    using that by (simp add: update_with_live_quote_def Let_def)
  have match: "\<exists>cs. last (rows df) = (qd, cs)
               \<and> update_with_live_quote E ticker df
                   = Inr (df\<lparr>rows := butlast (rows df)
                                    @ [(qd, cs[pos AdjCloseCol (columns df) := FloatV price])]\<rparr>)
               \<and> cell_at (cs[pos AdjCloseCol (columns df) := FloatV price])
                    (pos AdjCloseCol (columns df)) = FloatV price
               \<and> (\<forall>c \<in> set (columns df). c \<noteq> AdjCloseCol \<longrightarrow>
                     cell_at (cs[pos AdjCloseCol (columns df) := FloatV price]) (pos c (columns df))
                       = cell_at cs (pos c (columns df)))"
    if q: "fetch_live_quote E ticker = Some ((qd, tm), price)" and l: "index_last df = Inr qd"
      and dist: "distinct (index df)" and rect: "rectangular df"
      and adj: "AdjCloseCol \<in> set (columns df)"
  proof -
    let ?p = "pos AdjCloseCol (columns df)"
    have ne: "rows df \<noteq> []" and fl: "fst (last (rows df)) = qd"
      using l by (auto simp: index_last_def split: if_splits)
    define cs where "cs = snd (last (rows df))"
    have lastrow: "last (rows df) = (qd, cs)"
      using fl by (simp add: cs_def prod_eq_iff)
    have len: "length cs = length (columns df)"
      using rect ne last_in_set [OF ne] by (auto simp: rectangular_def list_all_iff cs_def)
    have upd: "update_with_live_quote E ticker df = Inr (ix_set qd AdjCloseCol (FloatV price) df)"
      using q l by (simp add: update_with_live_quote_def Let_def)
    have "map (\<lambda>r. if fst r = qd then (fst r, (snd r)[?p := FloatV price]) else r) (rows df)
        = butlast (rows df) @ [(fst (last (rows df)), (snd (last (rows df)))[?p := FloatV price])]"
      using dist ne fl
      by (intro map_only_last [where F = "\<lambda>r. (fst r, (snd r)[?p := FloatV price])"])
        (simp_all add: index_def)
    then have res: "ix_set qd AdjCloseCol (FloatV price) df
        = df\<lparr>rows := butlast (rows df) @ [(qd, cs[?p := FloatV price])]\<rparr>"
      using adj fl by (simp add: ix_set_present cs_def)
    have p: "?p < length cs" using adj len by (simp add: pos_less)
    have new: "cell_at (cs[?p := FloatV price]) ?p = FloatV price"
      using p by (simp add: cell_at_def)
    have others: "cell_at (cs[?p := FloatV price]) (pos c (columns df)) = cell_at cs (pos c (columns df))"
      if "c \<in> set (columns df)" "c \<noteq> AdjCloseCol" for c
    proof -
      have "pos c (columns df) \<noteq> ?p"
        using that adj pos_inj [of c "columns df" AdjCloseCol] by auto
      then show ?thesis by (simp add: cell_at_def)
    qed
    from lastrow upd res new others show ?thesis by auto
  qed
  have gate: "fst (read E cfg ticker source end0 w)
              = (if end_or_today end0 (today E) = today E
                 then update_with_live_quote E ticker df else Inr df)"
    if "fst (read_raw_data E cfg ticker source origin (end_or_today end0 (today E)) w) = Inr raw_df"
      "working_table cfg ticker source raw_df
             (snd (read_raw_data E cfg ticker source origin (end_or_today end0 (today E)) w))
            = Inr df"
    using that by (rule read_result)
  from absent mismatch match gate show ?thesis by blast
qed

text \<open>
  The three cases on sample tables, and the read of the test suite with the end left
  out, on the day of the quote.
\<close>

theorem live_quote_overlays_last_row_only_witness:
  "fetch_live_quote sample_env_no_quote ''GOOG'' = None
   \<and> update_with_live_quote sample_env_no_quote ''GOOG'' sample_cache = Inr sample_cache
   \<and> fetch_live_quote sample_env ''GOOG'' = Some ((''2017-11-02'', ''20:00''), 1031)
   \<and> index_last sample_cache = Inr ''2017-09-01'' \<and> ''2017-09-01'' \<noteq> ''2017-11-02''
   \<and> update_with_live_quote sample_env ''GOOG'' sample_cache = Inr sample_cache
   \<and> index_last sample_full = Inr ''2017-11-02'' \<and> distinct (index sample_full)
   \<and> rectangular sample_full \<and> AdjCloseCol \<in> set (columns sample_full)
   \<and> update_with_live_quote sample_env ''GOOG'' sample_full
       = Inr (sample_full\<lparr>rows := butlast (rows sample_full)
                @ [(''2017-11-02'', [FloatV 13, FloatV 15, FloatV 12, FloatV 14, FloatV 1031, IntV 400])]\<rparr>)
   \<and> fst (read_raw_data sample_env raw_only ''GOOG'' ''yahoo'' origin
             (end_or_today None (today sample_env)) world_after_first_read) = Inr sample_full
   \<and> working_table raw_only ''GOOG'' ''yahoo'' sample_full
        (snd (read_raw_data sample_env raw_only ''GOOG'' ''yahoo'' origin
                (end_or_today None (today sample_env)) world_after_first_read)) = Inr sample_full
   \<and> end_or_today None (today sample_env) = today sample_env
   \<and> fst (read sample_env raw_only ''GOOG'' ''yahoo'' None world_after_first_read)
       = update_with_live_quote sample_env ''GOOG'' sample_full"
proof -
  have a1: "fetch_live_quote sample_env_no_quote ''GOOG'' = None"
    by (simp add: sample_env_no_quote_def)
  have a2: "update_with_live_quote sample_env_no_quote ''GOOG'' sample_cache = Inr sample_cache"
    using live_quote_overlays_last_row_only
      [where E = sample_env_no_quote and ticker = "''GOOG''" and df = sample_cache] a1
    by blast
  have b1: "fetch_live_quote sample_env ''GOOG'' = Some ((''2017-11-02'', ''20:00''), 1031)"
    by (simp add: sample_env_def)
  have b2: "index_last sample_cache = Inr ''2017-09-01''"
    by (simp add: index_last_def sample_cache_def)
  have b3: "''2017-09-01'' \<noteq> ''2017-11-02''" by simp
  have b4: "update_with_live_quote sample_env ''GOOG'' sample_cache = Inr sample_cache"
    using live_quote_overlays_last_row_only
      [where E = sample_env and ticker = "''GOOG''" and df = sample_cache
         and qd = "''2017-11-02''" and tm = "''20:00''" and price = 1031 and ld = "''2017-09-01''"]
      b1 b2 b3
    by blast
  have c1: "index_last sample_full = Inr ''2017-11-02''"
    by (simp add: index_last_def sample_full_def)
  have c2: "distinct (index sample_full)" by (simp add: index_def sample_full_def)
  have c3: "rectangular sample_full" by (simp add: rectangular_def sample_full_def)
  have c4: "AdjCloseCol \<in> set (columns sample_full)" by (simp add: sample_full_def col_defs)
  have c5: "last (rows sample_full)
      = (''2017-11-02'', [FloatV 13, FloatV 15, FloatV 12, FloatV 14, FloatV 14, IntV 400])"
    by (simp add: sample_full_def)
  have c6: "pos AdjCloseCol (columns sample_full) = 4"
    by (simp add: sample_full_def col_defs)
  obtain cs where cs: "last (rows sample_full) = (''2017-11-02'', cs)"
    and u: "update_with_live_quote sample_env ''GOOG'' sample_full
                   = Inr (sample_full\<lparr>rows := butlast (rows sample_full)
                        @ [(''2017-11-02'', cs[pos AdjCloseCol (columns sample_full) := FloatV 1031])]\<rparr>)"
    using live_quote_overlays_last_row_only
      [where E = sample_env and ticker = "''GOOG''" and df = sample_full
         and qd = "''2017-11-02''" and tm = "''20:00''" and price = 1031]
      b1 c1 c2 c3 c4
    by blast
  have "cs = [FloatV 13, FloatV 15, FloatV 12, FloatV 14, FloatV 14, IntV 400]"
    using cs c5 by simp
  then have c7: "update_with_live_quote sample_env ''GOOG'' sample_full
       = Inr (sample_full\<lparr>rows := butlast (rows sample_full)
                @ [(''2017-11-02'', [FloatV 13, FloatV 15, FloatV 12, FloatV 14, FloatV 1031, IntV 400])]\<rparr>)"
    using u by (simp add: c6)
  have e: "end_or_today None (today sample_env) = ''2017-11-02''"
    by (simp add: end_or_today_def sample_env_def)
  have d1: "read_raw_data sample_env raw_only ''GOOG'' ''yahoo'' origin ''2017-11-02''
               world_after_first_read
            = (Inr sample_full, world_after_first_read
                 \<lparr>trace := trace world_after_first_read
                     @ [CacheRead ''GOOG.yahoo.csv'',
                        WebCall ''GOOG'' ''yahoo'' ''2017-09-01'' ''2017-11-02'']\<rparr>)"
    by (simp add: program_defs frame_ops sample_defs sample_cache_def world_after_first_read_def
        sample_full_def)
  have d2: "working_table raw_only ''GOOG'' ''yahoo'' sample_full w1 = Inr sample_full" for w1
    by (simp add: working_table_def raw_only_def)
  have d3: "end_or_today None (today sample_env) = today sample_env"
    by (simp add: end_or_today_def)
  have d4: "fst (read sample_env raw_only ''GOOG'' ''yahoo'' None world_after_first_read)
       = update_with_live_quote sample_env ''GOOG'' sample_full"
    using live_quote_overlays_last_row_only
      [where E = sample_env and ticker = "''GOOG''" and df = sample_full
         and cfg = raw_only and source = "''yahoo''" and ?end0.0 = None
         and w = world_after_first_read and raw_df = sample_full]
      d1 d2 d3 unfolding e
    by simp
  from a1 a2 b1 b2 b3 b4 c1 c2 c3 c4 c7 d1 d2 d3 d4 show ?thesis
    unfolding e by simp
qed

subsection \<open>C9: reference rows after the requested end\<close>

text \<open>
  C9, as amended. For a source other than \<open>reference\<close>, with
  \<open>use_reference\<close> on and a cached reference table whose last date is later than
  the requested end, a read that returns gives a table, also persisted under the
  reference key, that holds every date of the reference table, so some date after the
  requested end; when the end is not today, its cells are the reference's wherever the
  reference has a value.
\<close>

theorem reference_rows_after_end_are_returned:
  assumes ref_on: "use_reference cfg"
    and src: "source \<noteq> ''reference''"
    and ref: "files w (market_data_filename ''reference'' ticker) = Some ref_df"
    and last: "index_last ref_df = Inr ref_end"
    and later: "ref_end > end_or_today end0 (today E)"
    and ok: "read E cfg ticker source end0 w = (Inr df, w')"
  shows "set (index ref_df) \<subseteq> set (index df)
       \<and> (\<exists>d \<in> set (index df). d > end_or_today end0 (today E))
       \<and> files w' (market_data_filename ''reference'' ticker) = Some df
       \<and> (end_or_today end0 (today E) \<noteq> today E \<longrightarrow>
            (\<forall>d c. value_at ref_df d c \<noteq> NaN \<longrightarrow> value_at df d c = value_at ref_df d c))"
proof -
  let ?e = "end_or_today end0 (today E)"
  let ?rw = "read_raw_data E cfg ticker source origin ?e w"
  let ?ref = "market_data_filename ''reference'' ticker"
  have s: "fst (read E cfg ticker source end0 w) = Inr df" using ok by simp
  obtain raw_df where r: "fst ?rw = Inr raw_df"
    using read_success_raw [OF s] by blast
  then have raw: "?rw = (Inr raw_df, snd ?rw)" by (cases ?rw) simp
  have "files (save_raw_data ticker source raw_df (snd ?rw)) ?ref = Some ref_df"
    using filename_reference_neq [OF src, of ticker] ref
    by (simp add: save_raw_data_eq read_raw_data_files)
  then have wt: "working_table cfg ticker source raw_df (snd ?rw)
      = combine_first ref_df (ix_from ref_end raw_df)"
    using ref_on last by (simp add: working_table_def combine_ref_and_raw_data_def)
  obtain df0 where comb: "combine_first ref_df (ix_from ref_end raw_df) = Inr df0"
    and upd: "(if ?e = today E then update_with_live_quote E ticker df0 else Inr df0) = Inr df"
    using s unfolding read_after_raw [OF raw] wt by (auto split: sum.splits)
  have idx: "index df = index df0"
    using upd by (auto split: if_splits dest: index_update_with_live_quote)
  have sub: "set (index ref_df) \<subseteq> set (index df)"
    by (simp add: idx combine_first_index [OF comb] set_union_index)
  have "ref_end \<in> set (index ref_df)"
    using last by (auto simp: index_last_Inr_iff)
  then have beyond: "\<exists>d \<in> set (index df). d > ?e"
    using sub later by blast
  have stored: "files w' ?ref = Some df"
    using read_success [OF s] ok by simp
  have cells: "value_at df d c = value_at ref_df d c"
    if "?e \<noteq> today E" "value_at ref_df d c \<noteq> NaN" for d c
  proof -
    have "df = df0" using upd that(1) by simp
    then show ?thesis
      using that(2) by (simp add: value_at_combine_first [OF comb] combiner_def)
  qed
  from sub beyond stored cells show ?thesis by blast
qed

text \<open>
  The sample reference ends on 2017-09-05; the read asks for 2017-09-01.
\<close>

theorem reference_rows_after_end_are_returned_witness:
  "use_reference with_reference \<and> ''yahoo'' \<noteq> ''reference''
   \<and> files world_with_reference (market_data_filename ''reference'' ''GOOG'') = Some sample_reference
   \<and> index_last sample_reference = Inr ''2017-09-05''
   \<and> ''2017-09-05'' > end_or_today (Some ''2017-09-01'') (today sample_env)
   \<and> fst (read sample_env with_reference ''GOOG'' ''yahoo'' (Some ''2017-09-01'') world_with_reference)
       = Inr sample_reference
   \<and> end_or_today (Some ''2017-09-01'') (today sample_env) \<noteq> today sample_env
   \<and> ''2017-09-05'' \<in> set (index sample_reference)
   \<and> files (snd (read sample_env with_reference ''GOOG'' ''yahoo'' (Some ''2017-09-01'')
                    world_with_reference)) (market_data_filename ''reference'' ''GOOG'')
       = Some sample_reference"
proof -
  let ?r = "read sample_env with_reference ''GOOG'' ''yahoo'' (Some ''2017-09-01'') world_with_reference"
  have h1: "use_reference with_reference" by (simp add: with_reference_def)
  have h2: "''yahoo'' \<noteq> ''reference''" by simp
  have h3: "files world_with_reference (market_data_filename ''reference'' ''GOOG'') = Some sample_reference"
    by (simp add: world_with_reference_def market_data_filename_def)
  have h4: "index_last sample_reference = Inr ''2017-09-05''"
    by (simp add: index_last_def sample_reference_def)
  have e: "end_or_today (Some ''2017-09-01'') (today sample_env) = ''2017-09-01''"
    by (simp add: end_or_today_def)
  have h5: "''2017-09-05'' > end_or_today (Some ''2017-09-01'') (today sample_env)"
    unfolding e by simp
  have f: "fst ?r = Inr sample_reference"
    by (simp add: program_defs frame_ops sample_defs sample_cache_def world_with_reference_def
        sample_reference_def)
  then have h6: "?r = (Inr sample_reference, snd ?r)" by (cases ?r) simp
  have h7: "end_or_today (Some ''2017-09-01'') (today sample_env) \<noteq> today sample_env"
    unfolding e by (simp add: sample_env_def)
  have h8: "''2017-09-05'' \<in> set (index sample_reference)"
    by (simp add: index_def sample_reference_def)
  show ?thesis
    using reference_rows_after_end_are_returned [OF h1 h2 h3 h4 h5 h6] h1 h2 h3 h4 h5 f h7 h8
    by blast
qed

text \<open>
  C9 as stated fails when the source is \<open>reference\<close> itself: the raw cache entry
  is then the reference file. The reference ends on 2017-09-05 and the read asks for
  2017-09-01: step 1 truncates the entry to 2017-09-01 without asking the vendor, the
  truncated table is saved over the reference file before the overlay reads it, and it
  is what the read returns.
\<close>

theorem read_of_reference_source_truncates_reference:
  "use_reference with_reference
   \<and> files world_with_reference (market_data_filename ''reference'' ''GOOG'') = Some sample_reference
   \<and> index_last sample_reference = Inr ''2017-09-05''
   \<and> ''2017-09-05'' > end_or_today (Some ''2017-09-01'') (today sample_env)
   \<and> read sample_env with_reference ''GOOG'' ''reference'' (Some ''2017-09-01'') world_with_reference
       = (Inr (ix_to ''2017-09-01'' sample_reference),
          world_with_reference
            \<lparr>files := (files world_with_reference)
                        (''GOOG.csv'' \<mapsto> ix_to ''2017-09-01'' sample_reference),
              trace := [CacheRead ''GOOG.csv'', CacheWrite ''GOOG.csv'',
                        CacheRead ''GOOG.csv'', CacheWrite ''GOOG.csv'']\<rparr>)
   \<and> index (ix_to ''2017-09-01'' sample_reference) = [''2017-09-01'']
   \<and> ''2017-09-05'' \<in> set (index sample_reference)
   \<and> ''2017-09-05'' \<notin> set (index (ix_to ''2017-09-01'' sample_reference))"
proof -
  have a: "use_reference with_reference" by (simp add: with_reference_def)
  have b: "files world_with_reference (market_data_filename ''reference'' ''GOOG'') = Some sample_reference"
    by (simp add: world_with_reference_def market_data_filename_def)
  have c: "index_last sample_reference = Inr ''2017-09-05''"
    by (simp add: index_last_def sample_reference_def)
  have d: "''2017-09-05'' > end_or_today (Some ''2017-09-01'') (today sample_env)"
    by (simp add: end_or_today_def)
  have e: "read sample_env with_reference ''GOOG'' ''reference'' (Some ''2017-09-01'') world_with_reference
       = (Inr (ix_to ''2017-09-01'' sample_reference),
          world_with_reference
            \<lparr>files := (files world_with_reference)
                        (''GOOG.csv'' \<mapsto> ix_to ''2017-09-01'' sample_reference),
              trace := [CacheRead ''GOOG.csv'', CacheWrite ''GOOG.csv'',
                        CacheRead ''GOOG.csv'', CacheWrite ''GOOG.csv'']\<rparr>)"
    by (simp add: program_defs frame_ops sample_defs world_with_reference_def sample_reference_def)
  have f: "index (ix_to ''2017-09-01'' sample_reference) = [''2017-09-01'']"
    by (simp add: index_def ix_to_def sample_reference_def)
  have g: "''2017-09-05'' \<in> set (index sample_reference)"
    by (simp add: index_def sample_reference_def)
  have h: "''2017-09-05'' \<notin> set (index (ix_to ''2017-09-01'' sample_reference))"
    by (simp add: f)
  from a b c d e f g h show ?thesis by blast
qed

subsection \<open>C10: cache file names\<close>

text \<open>
  C10. The mapping from the cache key (ticker, source) to the file name is not
  injective: ticker \<open>A.b\<close> with source \<open>reference\<close> and ticker \<open>A\<close> with source
  \<open>b\<close> both give \<open>A.b.csv\<close>, so a frame saved under the first key is what a read
  under the second key finds.
\<close>

theorem filename_not_injective:
  "market_data_filename ''reference'' ''A.b'' = ''A.b.csv''
   \<and> market_data_filename ''b'' ''A'' = ''A.b.csv''
   \<and> (''A.b'', ''reference'') \<noteq> (''A'', ''b'')
   \<and> fst (read_cache ''A'' ''b'' (save_raw_data ''A.b'' ''reference'' df w)) = Some df"
  by (simp add: market_data_filename_def read_cache_def save_raw_data_def Let_def)

end
